theory Spec2Isabelle
  imports Main
begin

section \<open>Go values\<close>

text \<open>
  A Go slice is either \<open>nil\<close> or a sequence of elements; \<open>len\<close> of a \<open>nil\<close>
  slice is 0 and \<open>range\<close> over it runs no iteration.
\<close>

type_synonym 'a slice = "'a list option"

definition elems :: "'a slice \<Rightarrow> 'a list" where
  "elems s = (case s of None \<Rightarrow> [] | Some xs \<Rightarrow> xs)"

definition len :: "'a slice \<Rightarrow> int" where
  "len s = int (length (elems s))"

subsection \<open>Formatting an integer with \<open>%d\<close>\<close>

definition digit_char :: "nat \<Rightarrow> char" where
  "digit_char d =
     (if d = 0 then CHR ''0'' else if d = 1 then CHR ''1'' else if d = 2 then CHR ''2''
      else if d = 3 then CHR ''3'' else if d = 4 then CHR ''4'' else if d = 5 then CHR ''5''
      else if d = 6 then CHR ''6'' else if d = 7 then CHR ''7'' else if d = 8 then CHR ''8''
      else CHR ''9'')"

fun show_nat :: "nat \<Rightarrow> string" where
  "show_nat n = (if n < 10 then [digit_char n] else show_nat (n div 10) @ [digit_char (n mod 10)])"

declare show_nat.simps [simp del]

text \<open>The verb \<open>%d\<close> on an integer: decimal digits, with a leading minus sign when negative.\<close>

definition sprint_d :: "int \<Rightarrow> string" where
  "sprint_d i = (if i < 0 then CHR ''-'' # show_nat (nat (- i)) else show_nat (nat i))"

section \<open>The custom effect encoder: \<open>ToString\<close>\<close>

text \<open>
  Modelled from the spec: the declarations of \<open>StreamEffect\<close>, of its panels and of their
  frames are not in effects.go. \<open>ToString\<close> reads \<open>effect.Panels\<close>, \<open>panel.ID\<close>,
  \<open>panel.Frames\<close>, \<open>frame.Red\<close>, \<open>frame.Green\<close>, \<open>frame.Blue\<close> and \<open>frame.Transition\<close>
  and prints the numbers with \<open>%d\<close>; the spec gives a panel a numeric id and an ordered
  sequence of frames, and leaves the ranges of the numbers to the caller. The numbers are
  integers here, negative ones included.
\<close>

record Frame =
  Red :: int
  Green :: int
  Blue :: int
  Transition :: int

record Panel =
  ID :: int
  Frames :: "Frame slice"

record StreamEffect =
  Panels :: "Panel slice"

text \<open>
  The inner loop of \<open>ToString\<close>:
  \<^verbatim>\<open>data = fmt.Sprintf("%s %d %d %d 0 %d", data, frame.Red, frame.Green, frame.Blue, frame.Transition)\<close>
\<close>

fun frames_loop :: "string \<Rightarrow> Frame list \<Rightarrow> string" where
  "frames_loop data [] = data"
| "frames_loop data (frame # rest) =
     frames_loop (data @ '' '' @ sprint_d (Red frame) @ '' '' @ sprint_d (Green frame) @ '' ''
                    @ sprint_d (Blue frame) @ '' 0 '' @ sprint_d (Transition frame)) rest"

text \<open>
  The outer loop:
  \<^verbatim>\<open>data = fmt.Sprintf("%s %d %d", data, panel.ID, len(panel.Frames))\<close>
  followed by the inner loop over \<open>panel.Frames\<close>.
\<close>

fun panels_loop :: "string \<Rightarrow> Panel list \<Rightarrow> string" where
  "panels_loop data [] = data"
| "panels_loop data (panel # rest) =
     panels_loop
       (frames_loop (data @ '' '' @ sprint_d (ID panel) @ '' '' @ sprint_d (len (Frames panel)))
          (elems (Frames panel)))
       rest"

definition ToString :: "StreamEffect \<Rightarrow> string" where
  "ToString effect = panels_loop (sprint_d (len (Panels effect))) (elems (Panels effect))"

section \<open>The effect operations\<close>

subsection \<open>Errors\<close>

text \<open>
  Modelled from the spec: the error values \<open>ErrUnauthorized\<close>, \<open>ErrEffectNotFound\<close>,
  \<open>ErrUnexpectedResponse\<close> and \<open>ErrParsingJSON\<close> are declared outside effects.go. They are
  the spec's kinds Unauthorized, EffectNotFound, UnexpectedResponse and MalformedResponse,
  four distinct values. \<open>ErrOther\<close> stands for every other value of Go's \<open>error\<close>
  interface, which is what the HTTP client hands back when no response was obtained.
\<close>

datatype error =
    ErrUnauthorized
  | ErrEffectNotFound
  | ErrUnexpectedResponse
  | ErrParsingJSON
  | ErrOther string

subsection \<open>Effect data\<close>

text \<open>
  \<open>float64\<close> and the values of \<open>interface{}\<close> are carried around and never inspected
  by effects.go.
\<close>

typedecl float64
typedecl go_interface

record PaletteColor =
  Hue :: int
  Saturation :: int
  Brightness :: int
  Probability :: float64

record PluginOption =
  Name :: string
  Value :: go_interface

record EffectData =
  Command :: string
  Loop :: bool
  Name :: string
  Type :: string
  Version :: string
  Data :: string
  ColorType :: string
  Palette :: "PaletteColor slice"
  PluginType :: string
  PluginUuid :: string
  PluginOptions :: "PluginOption slice"
  OverlayPalette :: "PaletteColor slice"
  OverlayColorType :: string
  HasOverlay :: bool
  LogicalPanelsEnabled :: bool

text \<open>The zero value of \<open>var data EffectData\<close>.\<close>

definition EffectData_zero :: EffectData where
  "EffectData_zero =
     \<lparr>Command = [], Loop = False, Name = [], Type = [], Version = [], Data = [],
      ColorType = [], Palette = None, PluginType = [], PluginUuid = [], PluginOptions = None,
      OverlayPalette = None, OverlayColorType = [], HasOverlay = False,
      LogicalPanelsEnabled = False\<rparr>"

subsection \<open>Request bodies\<close>

text \<open>
  Modelled from the spec: the declaration of \<open>jsonPayload\<close> is not in effects.go. Its
  literals (\<open>jsonPayload{"select": name}\<close>) make it a Go map from strings to values of any
  type; the values effects.go stores are strings, booleans, integers, an \<open>EffectData\<close> and
  nested payloads, and a caller of \<open>WriteRaw\<close> may store anything else.
\<close>

datatype jsonValue =
    JString string
  | JBool bool
  | JInt int
  | JEffectData EffectData
  | JPayload "string \<Rightarrow> jsonValue option"
  | JOther go_interface

type_synonym jsonPayload = "string \<Rightarrow> jsonValue option"

subsection \<open>The HTTP client\<close>

datatype http_method = GET | PUT

record request =
  Method :: http_method
  URL :: string
  Header :: "(string \<times> string) list"
  ReqBody :: "jsonPayload option"

record response =
  StatusCode :: int
  Body :: string

text \<open>
  Modelled from the spec: the declaration of \<open>Nanoleaf\<close> is not in effects.go, which reads
  \<open>nano.url\<close>, \<open>nano.token\<close> and \<open>nano.client\<close>. The client is the transport of the spec:
  it takes a request and gives either an error (no response obtained) or a response with a
  status code and a body. Sending a request is an effect on the network and the device
  behind it, so the client also takes the state \<open>'n\<close> of that outside world and returns the
  new one.
\<close>

record 'n Nanoleaf =
  url :: string
  token :: string
  client :: "request \<Rightarrow> 'n \<Rightarrow> (error + response) \<times> 'n"

record 'n NanoEffects =
  nano :: "'n Nanoleaf"
  endpoint :: string

text \<open>What an operation acts on: the outside world of the client, and standard output.\<close>

record 'n world =
  net :: 'n
  stdout :: "string list"

definition send :: "'n Nanoleaf \<Rightarrow> request \<Rightarrow> 'n world \<Rightarrow> (error + response) \<times> 'n world" where
  "send n req w = (case client n req (net w) of (r, s) \<Rightarrow> (r, w\<lparr>net := s\<rparr>))"

text \<open>\<^verbatim>\<open>nano.client.R().Get(url)\<close>\<close>

definition R_Get :: "'n Nanoleaf \<Rightarrow> string \<Rightarrow> 'n world \<Rightarrow> (error + response) \<times> 'n world" where
  "R_Get n u = send n \<lparr>Method = GET, URL = u, Header = [], ReqBody = None\<rparr>"

text \<open>\<^verbatim>\<open>nano.client.R().SetHeader("Content-Type", "application/json").SetBody(body).Put(url)\<close>\<close>

definition R_Put :: "'n Nanoleaf \<Rightarrow> jsonPayload \<Rightarrow> string \<Rightarrow> 'n world \<Rightarrow> (error + response) \<times> 'n world" where
  "R_Put n body u =
     send n \<lparr>Method = PUT, URL = u, Header = [(''Content-Type'', ''application/json'')],
             ReqBody = Some body\<rparr>"

text \<open>\<^verbatim>\<open>fmt.Println(err)\<close>: one more line on standard output.\<close>

definition Println :: "string \<Rightarrow> 'n world \<Rightarrow> 'n world" where
  "Println msg w = w\<lparr>stdout := stdout w @ [msg]\<rparr>"

definition StatusOK :: int where "StatusOK = 200"
definition StatusNoContent :: int where "StatusNoContent = 204"
definition StatusUnauthorized :: int where "StatusUnauthorized = 401"
definition StatusNotFound :: int where "StatusNotFound = 404"

subsection \<open>Decoding a response body\<close>

text \<open>
  \<open>json.Unmarshal(body, &v)\<close> belongs to Go's library. It is a parameter here, one decoder
  for each type effects.go decodes into: the decoder takes the body and the value \<open>v\<close>
  holds before the call, and gives the value \<open>v\<close> holds after it together with the error
  (\<open>None\<close> for \<open>nil\<close>, otherwise the error's message). Nothing is assumed about what a
  decoder leaves in \<open>v\<close> when it fails. The anonymous struct of \<open>GetAllEffectData\<close> has
  the single field \<open>Animations\<close> and is that field here.
\<close>

record json =
  Unmarshal_strings :: "string \<Rightarrow> string slice \<Rightarrow> string slice \<times> string option"
  Unmarshal_string :: "string \<Rightarrow> string \<Rightarrow> string \<times> string option"
  Unmarshal_EffectData :: "string \<Rightarrow> EffectData \<Rightarrow> EffectData \<times> string option"
  Unmarshal_animations :: "string \<Rightarrow> EffectData slice \<Rightarrow> EffectData slice \<times> string option"

subsection \<open>The operations\<close>

definition newNanoEffects :: "'n Nanoleaf \<Rightarrow> 'n NanoEffects" where
  "newNanoEffects n = \<lparr>nano = n, endpoint = url n @ ''/'' @ token n @ ''/effects''\<rparr>"

definition List :: "json \<Rightarrow> 'n NanoEffects \<Rightarrow> 'n world \<Rightarrow> (string slice \<times> error option) \<times> 'n world" where
  "List j e w =
     (case R_Get (nano e) (endpoint e @ ''/effectsList'') w of
        (Inl err, w') \<Rightarrow> ((None, Some err), w')
      | (Inr resp, w') \<Rightarrow>
          if StatusCode resp = StatusUnauthorized then ((None, Some ErrUnauthorized), w')
          else if StatusCode resp \<noteq> StatusOK then ((None, Some ErrUnexpectedResponse), w')
          else (case Unmarshal_strings j (Body resp) None of
                  (effects, Some err) \<Rightarrow> ((None, Some ErrParsingJSON), w')
                | (effects, None) \<Rightarrow> ((effects, None), w')))"

definition Set :: "'n NanoEffects \<Rightarrow> string \<Rightarrow> 'n world \<Rightarrow> error option \<times> 'n world" where
  "Set e name w =
     (case R_Put (nano e) [''select'' \<mapsto> JString name] (endpoint e) w of
        (Inl err, w') \<Rightarrow> (Some err, w')
      | (Inr resp, w') \<Rightarrow>
          if StatusCode resp = StatusUnauthorized then (Some ErrUnauthorized, w')
          else if StatusCode resp = StatusNotFound then (Some ErrEffectNotFound, w')
          else if StatusCode resp \<noteq> StatusNoContent then (Some ErrUnexpectedResponse, w')
          else (None, w'))"

definition Get :: "json \<Rightarrow> 'n NanoEffects \<Rightarrow> 'n world \<Rightarrow> (string \<times> error option) \<times> 'n world" where
  "Get j e w =
     (case R_Get (nano e) (endpoint e @ ''/select'') w of
        (Inl err, w') \<Rightarrow> (([], Some err), w')
      | (Inr resp, w') \<Rightarrow>
          if StatusCode resp = StatusUnauthorized then (([], Some ErrUnauthorized), w')
          else if StatusCode resp \<noteq> StatusOK then (([], Some ErrUnexpectedResponse), w')
          else (case Unmarshal_string j (Body resp) [] of
                  (effect, Some err) \<Rightarrow> (([], Some ErrParsingJSON), w')
                | (effect, None) \<Rightarrow> ((effect, None), w')))"

definition GetEffectData ::
  "json \<Rightarrow> 'n NanoEffects \<Rightarrow> string \<Rightarrow> 'n world \<Rightarrow> (EffectData \<times> error option) \<times> 'n world" where
  "GetEffectData j e effect w =
     (let data = EffectData_zero;
          body = [''write'' \<mapsto> JPayload [''command'' \<mapsto> JString ''request'',
                                            ''animName'' \<mapsto> JString effect]]
      in case R_Put (nano e) body (endpoint e) w of
           (Inl err, w') \<Rightarrow> ((data, Some err), w')
         | (Inr resp, w') \<Rightarrow>
             if StatusCode resp = StatusUnauthorized then ((data, Some ErrUnauthorized), w')
             else if StatusCode resp = StatusNotFound then ((data, Some ErrEffectNotFound), w')
             else if StatusCode resp \<noteq> StatusOK then ((data, Some ErrUnexpectedResponse), w')
             else (case Unmarshal_EffectData j (Body resp) data of
                     (data', Some err) \<Rightarrow> ((data', Some ErrParsingJSON), Println err w')
                   | (data', None) \<Rightarrow> ((data', None), w')))"

definition GetAllEffectData ::
  "json \<Rightarrow> 'n NanoEffects \<Rightarrow> 'n world \<Rightarrow> (EffectData slice \<times> error option) \<times> 'n world" where
  "GetAllEffectData j e w =
     (let animations = None;
          body = [''write'' \<mapsto> JPayload [''command'' \<mapsto> JString ''requestAll'']]
      in case R_Put (nano e) body (endpoint e) w of
           (Inl err, w') \<Rightarrow> ((animations, Some err), w')
         | (Inr resp, w') \<Rightarrow>
             if StatusCode resp = StatusUnauthorized then ((animations, Some ErrUnauthorized), w')
             else if StatusCode resp = StatusNotFound then ((animations, Some ErrEffectNotFound), w')
             else if StatusCode resp \<noteq> StatusOK then ((animations, Some ErrUnexpectedResponse), w')
             else (case Unmarshal_animations j (Body resp) animations of
                     (animations', Some err) \<Rightarrow> ((animations', Some ErrParsingJSON), Println err w')
                   | (animations', None) \<Rightarrow> ((animations', None), w')))"

definition RenameEffect :: "'n NanoEffects \<Rightarrow> string \<Rightarrow> string \<Rightarrow> 'n world \<Rightarrow> error option \<times> 'n world" where
  "RenameEffect e animName newName w =
     (let body = [''write'' \<mapsto> JPayload [''command'' \<mapsto> JString ''rename'',
                                            ''animName'' \<mapsto> JString animName,
                                            ''newName'' \<mapsto> JString newName]]
      in case R_Put (nano e) body (endpoint e) w of
           (Inl err, w') \<Rightarrow> (Some err, w')
         | (Inr resp, w') \<Rightarrow>
             if StatusCode resp = StatusUnauthorized then (Some ErrUnauthorized, w')
             else if StatusCode resp = StatusNotFound then (Some ErrEffectNotFound, w')
             else if StatusCode resp \<noteq> StatusNoContent then (Some ErrUnexpectedResponse, w')
             else (None, w'))"

definition AddEffect :: "'n NanoEffects \<Rightarrow> EffectData \<Rightarrow> string \<Rightarrow> 'n world \<Rightarrow> error option \<times> 'n world" where
  "AddEffect e data animName w =
     (let data1 = data\<lparr>Command := ''add''\<rparr>;
          data2 = data1\<lparr>Name := animName\<rparr>;
          body = [''write'' \<mapsto> JEffectData data2]
      in case R_Put (nano e) body (endpoint e) w of
           (Inl err, w') \<Rightarrow> (Some err, w')
         | (Inr resp, w') \<Rightarrow>
             if StatusCode resp = StatusUnauthorized then (Some ErrUnauthorized, w')
             else if StatusCode resp = StatusNotFound then (Some ErrEffectNotFound, w')
             else if StatusCode resp \<noteq> StatusNoContent then (Some ErrUnexpectedResponse, w')
             else (None, w'))"

definition DeleteEffect :: "'n NanoEffects \<Rightarrow> string \<Rightarrow> 'n world \<Rightarrow> error option \<times> 'n world" where
  "DeleteEffect e animName w =
     (let body = [''write'' \<mapsto> JPayload [''command'' \<mapsto> JString ''delete'',
                                            ''animName'' \<mapsto> JString animName]]
      in case R_Put (nano e) body (endpoint e) w of
           (Inl err, w') \<Rightarrow> (Some err, w')
         | (Inr resp, w') \<Rightarrow>
             if StatusCode resp = StatusUnauthorized then (Some ErrUnauthorized, w')
             else if StatusCode resp = StatusNotFound then (Some ErrEffectNotFound, w')
             else if StatusCode resp \<noteq> StatusNoContent then (Some ErrUnexpectedResponse, w')
             else (None, w'))"

definition WriteRaw :: "'n NanoEffects \<Rightarrow> jsonPayload \<Rightarrow> 'n world \<Rightarrow> error option \<times> 'n world" where
  "WriteRaw e body w =
     (case R_Put (nano e) body (endpoint e) w of
        (Inl err, w') \<Rightarrow> (Some err, w')
      | (Inr resp, w') \<Rightarrow>
          if StatusCode resp = StatusUnauthorized then (Some ErrUnauthorized, w')
          else if StatusCode resp \<noteq> StatusNoContent then (Some ErrUnexpectedResponse, w')
          else (None, w'))"

definition Display :: "'n NanoEffects \<Rightarrow> string \<Rightarrow> bool \<Rightarrow> 'n world \<Rightarrow> error option \<times> 'n world" where
  "Display e data loop w =
     (let body = [''write'' \<mapsto> JPayload [''command'' \<mapsto> JString ''display'',
                                            ''animType'' \<mapsto> JString ''custom'',
                                            ''colorType'' \<mapsto> JString ''RGB'',
                                            ''animData'' \<mapsto> JString data,
                                            ''loop'' \<mapsto> JBool loop]]
      in WriteRaw e body w)"

definition DisplayTemp :: "'n NanoEffects \<Rightarrow> string \<Rightarrow> int \<Rightarrow> 'n world \<Rightarrow> error option \<times> 'n world" where
  "DisplayTemp e animName duration w =
     (let body = [''write'' \<mapsto> JPayload [''command'' \<mapsto> JString ''displayTemp'',
                                            ''duration'' \<mapsto> JInt duration,
                                            ''animName'' \<mapsto> JString animName]]
      in WriteRaw e body w)"

section \<open>Reading the encoder's format\<close>

text \<open>
  The grammar of the format, as the spec gives it (space-separated integers, no trailing
  delimiter):
  \<^verbatim>\<open><panelCount> { <panelID> <frameCount> { <R> <G> <B> 0 <transitionTime> } }\<close>
  The reader below follows this grammar and nothing of \<open>ToString\<close>: it cuts the text at
  every space, reads each piece as a decimal integer, and then reads the panel count, that
  many panels, and for each panel its id, its frame count and that many frames of five
  numbers whose fourth is the literal 0. Nothing may be left over.
\<close>

fun position :: "'a \<Rightarrow> 'a list \<Rightarrow> nat option" where
  "position x [] = None"
| "position x (y # ys) = (if x = y then Some 0 else map_option Suc (position x ys))"

text \<open>The value of a decimal digit is its place among the ten digits.\<close>

definition digit_val :: "char \<Rightarrow> nat option" where
  "digit_val c = position c ''0123456789''"

fun read_digits :: "nat \<Rightarrow> string \<Rightarrow> nat option" where
  "read_digits acc [] = Some acc"
| "read_digits acc (c # cs) =
     (case digit_val c of None \<Rightarrow> None | Some d \<Rightarrow> read_digits (10 * acc + d) cs)"

definition read_nat :: "string \<Rightarrow> nat option" where
  "read_nat s = (if s = [] then None else read_digits 0 s)"

definition read_int :: "string \<Rightarrow> int option" where
  "read_int s =
     (case s of
        [] \<Rightarrow> None
      | c # cs \<Rightarrow>
          if c = CHR ''-'' then map_option (\<lambda>n. - int n) (read_nat cs)
          else map_option int (read_nat s))"

fun split_on :: "char \<Rightarrow> string \<Rightarrow> string list" where
  "split_on sep [] = [[]]"
| "split_on sep (c # cs) =
     (if c = sep then [] # split_on sep cs
      else (case split_on sep cs of [] \<Rightarrow> [[c]] | w # ws \<Rightarrow> (c # w) # ws))"

fun read_all :: "string list \<Rightarrow> int list option" where
  "read_all [] = Some []"
| "read_all (w # ws) =
     (case read_int w of None \<Rightarrow> None
      | Some i \<Rightarrow> (case read_all ws of None \<Rightarrow> None | Some is \<Rightarrow> Some (i # is)))"

type_synonym frame_fields = "int \<times> int \<times> int \<times> int \<times> int"
type_synonym panel_fields = "int \<times> int \<times> frame_fields list"

fun parse_frames :: "nat \<Rightarrow> int list \<Rightarrow> (frame_fields list \<times> int list) option" where
  "parse_frames 0 ts = Some ([], ts)"
| "parse_frames (Suc n) (r # g # b # w # t # ts) =
     (if w = 0 then
        (case parse_frames n ts of None \<Rightarrow> None
         | Some (fs, ts') \<Rightarrow> Some ((r, g, b, w, t) # fs, ts'))
      else None)"
| "parse_frames (Suc n) _ = None"

fun parse_panels :: "nat \<Rightarrow> int list \<Rightarrow> (panel_fields list \<times> int list) option" where
  "parse_panels 0 ts = Some ([], ts)"
| "parse_panels (Suc n) (pid # fc # ts) =
     (if fc < 0 then None
      else (case parse_frames (nat fc) ts of None \<Rightarrow> None
            | Some (fs, ts') \<Rightarrow>
                (case parse_panels n ts' of None \<Rightarrow> None
                 | Some (ps, ts'') \<Rightarrow> Some ((pid, fc, fs) # ps, ts''))))"
| "parse_panels (Suc n) _ = None"

definition parse_animation :: "string \<Rightarrow> (int \<times> panel_fields list) option" where
  "parse_animation s =
     (case read_all (split_on CHR '' '' s) of
        None \<Rightarrow> None
      | Some [] \<Rightarrow> None
      | Some (pc # ts) \<Rightarrow>
          if pc < 0 then None
          else (case parse_panels (nat pc) ts of
                  Some (ps, []) \<Rightarrow> Some (pc, ps)
                | _ \<Rightarrow> None))"

text \<open>The numbers of a frame and of a panel, as the reader returns them.\<close>

definition frame_fields_of :: "Frame \<Rightarrow> frame_fields" where
  "frame_fields_of f = (Red f, Green f, Blue f, 0, Transition f)"

definition panel_fields_of :: "Panel \<Rightarrow> panel_fields" where
  "panel_fields_of p = (ID p, len (Frames p), map frame_fields_of (elems (Frames p)))"

text \<open>The numbers the encoder writes after the panel count, in the order it writes them.\<close>

fun frame_numbers :: "Frame list \<Rightarrow> int list" where
  "frame_numbers [] = []"
| "frame_numbers (f # fs) = [Red f, Green f, Blue f, 0, Transition f] @ frame_numbers fs"

fun panel_numbers :: "Panel list \<Rightarrow> int list" where
  "panel_numbers [] = []"
| "panel_numbers (p # ps) =
     [ID p, len (Frames p)] @ frame_numbers (elems (Frames p)) @ panel_numbers ps"

fun spaced :: "int list \<Rightarrow> string" where
  "spaced [] = []"
| "spaced (i # is) = CHR '' '' # sprint_d i @ spaced is"

section \<open>A simulated device\<close>

text \<open>
  A device that answers every request with one fixed response and keeps the requests it
  received, in order; decoders that reject every body and leave their target as it was, as
  \<open>json.Unmarshal\<close> does with a body that is not well-formed JSON; and a world in which
  nothing has been sent or printed yet.
\<close>

definition fake_client :: "response \<Rightarrow> request \<Rightarrow> request list \<Rightarrow> (error + response) \<times> request list" where
  "fake_client resp req received = (Inr resp, received @ [req])"

definition fake_nano :: "response \<Rightarrow> request list Nanoleaf" where
  "fake_nano resp = \<lparr>url = ''http://10.0.0.2:16021/api/v1'', token = ''secret'', client = fake_client resp\<rparr>"

definition failing_strings :: "string \<Rightarrow> string slice \<Rightarrow> string slice \<times> string option" where
  "failing_strings body v = (v, Some ''unexpected end of JSON input'')"

definition failing_string :: "string \<Rightarrow> string \<Rightarrow> string \<times> string option" where
  "failing_string body v = (v, Some ''unexpected end of JSON input'')"

definition failing_EffectData :: "string \<Rightarrow> EffectData \<Rightarrow> EffectData \<times> string option" where
  "failing_EffectData body v = (v, Some ''unexpected end of JSON input'')"

definition failing_animations :: "string \<Rightarrow> EffectData slice \<Rightarrow> EffectData slice \<times> string option" where
  "failing_animations body v = (v, Some ''unexpected end of JSON input'')"

definition failing_json :: json where
  "failing_json =
     \<lparr>Unmarshal_strings = failing_strings, Unmarshal_string = failing_string,
      Unmarshal_EffectData = failing_EffectData, Unmarshal_animations = failing_animations\<rparr>"

definition fresh :: "request list world" where
  "fresh = \<lparr>net = [], stdout = []\<rparr>"

section \<open>Properties of the encoder\<close>

subsection \<open>Decimal digits\<close>

lemma show_nat_digit: "n < 10 \<Longrightarrow> show_nat n = [digit_char n]"
  by (simp add: show_nat.simps)

lemma show_nat_step: "\<not> n < 10 \<Longrightarrow> show_nat n = show_nat (n div 10) @ [digit_char (n mod 10)]"
  by (subst show_nat.simps) simp

lemma sprint_d_0: "sprint_d 0 = ''0''"
  by (simp add: sprint_d_def show_nat_digit digit_char_def)

lemma digit_val_digit_char: "d < 10 \<Longrightarrow> digit_val (digit_char d) = Some d"
  by (auto simp: digit_val_def digit_char_def)

lemma read_digits_snoc:
  "read_digits acc (cs @ [c]) =
     (case read_digits acc cs of None \<Rightarrow> None
      | Some a \<Rightarrow> (case digit_val c of None \<Rightarrow> None | Some d \<Rightarrow> Some (10 * a + d)))"
  by (induction cs arbitrary: acc) (auto split: option.splits)

lemma read_digits_show_nat: "read_digits 0 (show_nat n) = Some n"
proof (induction n rule: show_nat.induct)
  case (1 n)
  show ?case
  proof (cases "n < 10")
    case True
    then show ?thesis by (simp add: show_nat_digit digit_val_digit_char)
  next
    case False
    with 1 have "read_digits 0 (show_nat (n div 10)) = Some (n div 10)" by simp
    with False show ?thesis
      by (simp add: show_nat_step read_digits_snoc digit_val_digit_char)
  qed
qed

lemma show_nat_not_Nil: "show_nat n \<noteq> []"
  by (cases "n < 10") (simp_all add: show_nat_digit show_nat_step)

lemma digit_char_not_minus: "digit_char d \<noteq> CHR ''-''"
  by (simp add: digit_char_def)

lemma digit_char_not_space: "CHR '' '' \<noteq> digit_char d"
  by (simp add: digit_char_def)

lemma space_notin_show_nat: "CHR '' '' \<notin> set (show_nat n)"
proof (induction n rule: show_nat.induct)
  case (1 n)
  then show ?case
    by (cases "n < 10") (simp_all add: show_nat_digit show_nat_step digit_char_not_space)
qed

lemma hd_show_nat_not_minus: "hd (show_nat n) \<noteq> CHR ''-''"
proof (induction n rule: show_nat.induct)
  case (1 n)
  then show ?case
    by (cases "n < 10") (simp_all add: show_nat_digit show_nat_step digit_char_not_minus show_nat_not_Nil)
qed

lemma read_nat_show_nat: "read_nat (show_nat n) = Some n"
  by (simp add: read_nat_def show_nat_not_Nil read_digits_show_nat)

lemma read_int_sprint_d: "read_int (sprint_d i) = Some i"
proof (cases "i < 0")
  case True
  then show ?thesis by (simp add: read_int_def sprint_d_def read_nat_show_nat)
next
  case False
  obtain c cs where cs: "show_nat (nat i) = c # cs"
    using show_nat_not_Nil by (cases "show_nat (nat i)") auto
  with hd_show_nat_not_minus [of "nat i"] have "c \<noteq> CHR ''-''" by simp
  with False cs read_nat_show_nat [of "nat i"] show ?thesis
    by (simp add: read_int_def sprint_d_def)
qed

lemma space_notin_sprint_d: "CHR '' '' \<notin> set (sprint_d i)"
  by (simp add: sprint_d_def space_notin_show_nat)

subsection \<open>Two encodings\<close>

text \<open>
  C2: encoding the animation of two panels, panel 1 with the single frame (255, 0, 0,
  transition 5) and panel 2 with the frames (0, 255, 0, transition 3) and (0, 0, 255,
  transition 7), gives exactly the text \<open>2 1 1 255 0 0 0 5 2 2 0 255 0 0 3 0 0 255 0 7\<close>.
\<close>

theorem ToString_two_panels:
  "ToString
     \<lparr>Panels = Some
        [\<lparr>ID = 1, Frames = Some [\<lparr>Red = 255, Green = 0, Blue = 0, Transition = 5\<rparr>]\<rparr>,
         \<lparr>ID = 2, Frames = Some [\<lparr>Red = 0, Green = 255, Blue = 0, Transition = 3\<rparr>,
                                 \<lparr>Red = 0, Green = 0, Blue = 255, Transition = 7\<rparr>]\<rparr>]\<rparr>
   = ''2 1 1 255 0 0 0 5 2 2 0 255 0 0 3 0 0 255 0 7''"
  by (simp add: ToString_def len_def elems_def sprint_d_def show_nat_digit show_nat_step
      digit_char_def)

text \<open>
  C8: encoding an animation with no panels gives exactly the text \<open>0\<close>, with nothing
  after it.
\<close>

theorem ToString_no_panels: "len (Panels effect) = 0 \<Longrightarrow> ToString effect = ''0''"
  by (simp add: ToString_def len_def sprint_d_0)

theorem ToString_no_panels_witness:
  "len (Panels \<lparr>Panels = None\<rparr>) = 0 \<and> ToString \<lparr>Panels = None\<rparr> = ''0'' \<and>
   len (Panels \<lparr>Panels = Some []\<rparr>) = 0 \<and> ToString \<lparr>Panels = Some []\<rparr> = ''0''"
  using ToString_no_panels [of "\<lparr>Panels = None\<rparr>"] ToString_no_panels [of "\<lparr>Panels = Some []\<rparr>"]
  by (simp add: len_def elems_def)

subsection \<open>Encoding, then reading\<close>

lemma spaced_append: "spaced (xs @ ys) = spaced xs @ spaced ys"
  by (induction xs) simp_all

lemma frames_loop_spaced: "frames_loop data fs = data @ spaced (frame_numbers fs)"
  by (induction fs arbitrary: data) (simp_all add: sprint_d_0)

lemma panels_loop_spaced: "panels_loop data ps = data @ spaced (panel_numbers ps)"
  by (induction ps arbitrary: data) (simp_all add: frames_loop_spaced spaced_append)

lemma ToString_spaced:
  "ToString e = sprint_d (len (Panels e)) @ spaced (panel_numbers (elems (Panels e)))"
  by (simp add: ToString_def panels_loop_spaced)

lemma split_on_no_sep: "sep \<notin> set w \<Longrightarrow> split_on sep (w @ sep # cs) = w # split_on sep cs"
  by (induction w) auto

lemma split_on_last: "sep \<notin> set w \<Longrightarrow> split_on sep w = [w]"
  by (induction w) auto

lemma split_on_spaced:
  "CHR '' '' \<notin> set w \<Longrightarrow> split_on CHR '' '' (w @ spaced is) = w # map sprint_d is"
proof (induction "is" arbitrary: w)
  case Nil
  then show ?case by (simp add: split_on_last)
next
  case (Cons i "is")
  have "split_on CHR '' '' (w @ spaced (i # is)) = w # split_on CHR '' '' (sprint_d i @ spaced is)"
    using Cons.prems by (simp add: split_on_no_sep)
  also have "split_on CHR '' '' (sprint_d i @ spaced is) = sprint_d i # map sprint_d is"
    by (rule Cons.IH) (rule space_notin_sprint_d)
  finally show ?case by simp
qed

lemma read_all_sprint_d: "read_all (map sprint_d is) = Some is"
  by (induction "is") (simp_all add: read_int_sprint_d)

lemma parse_frames_numbers:
  "parse_frames (length fs) (frame_numbers fs @ ts) = Some (map frame_fields_of fs, ts)"
  by (induction fs) (simp_all add: frame_fields_of_def)

lemma parse_panels_numbers:
  "parse_panels (length ps) (panel_numbers ps @ ts) = Some (map panel_fields_of ps, ts)"
  by (induction ps) (simp_all add: panel_fields_of_def len_def parse_frames_numbers)

text \<open>
  The reader on three texts outside the format (a fourth number that is not 0, a trailing
  space, a frame cut short) and on one inside it.
\<close>

lemma parse_animation_rejects:
  "parse_animation ''1 7 1 1 2 3 9 4'' = None \<and> parse_animation ''0 '' = None \<and>
   parse_animation ''1 7 1 1 2 3 0'' = None"
  by code_simp

lemma parse_animation_accepts:
  "parse_animation ''1 7 2 1 2 3 0 4 5 6 7 0 -8'' =
     Some (1, [(7, 2, [(1, 2, 3, 0, 4), (5, 6, 7, 0, - 8)])])"
  by code_simp

text \<open>
  C5: for every animation, reading the text \<open>ToString\<close> gives by the grammar of the format
  recovers the panel count, and for each panel, in the original order, its id, its frame
  count and each of its frames as red, green, blue, the literal 0 and the transition time,
  in the original order.
\<close>

theorem ToString_roundtrip:
  "parse_animation (ToString e) =
     Some (len (Panels e), map panel_fields_of (elems (Panels e)))"
proof -
  have "split_on CHR '' '' (ToString e) =
          map sprint_d (len (Panels e) # panel_numbers (elems (Panels e)))"
    by (simp add: ToString_spaced split_on_spaced space_notin_sprint_d)
  then have "read_all (split_on CHR '' '' (ToString e)) =
          Some (len (Panels e) # panel_numbers (elems (Panels e)))"
    by (simp only: read_all_sprint_d)
  moreover have "parse_panels (nat (len (Panels e))) (panel_numbers (elems (Panels e))) =
          Some (map panel_fields_of (elems (Panels e)), [])"
    using parse_panels_numbers [of "elems (Panels e)" "[]"] by (simp add: len_def)
  ultimately show ?thesis
    by (simp add: parse_animation_def len_def)
qed

section \<open>Properties of the operations\<close>

lemmas status_defs = StatusOK_def StatusNoContent_def StatusUnauthorized_def StatusNotFound_def

text \<open>Sending a request prints nothing.\<close>

lemma send_stdout: "send n req w = (r, w') \<Longrightarrow> stdout w' = stdout w"
  by (auto simp: send_def split: prod.splits)

subsection \<open>The status of the response\<close>

text \<open>
  C1, as the code has it: when the response to the request an operation sends has status
  404, \<open>Set\<close>, \<open>GetEffectData\<close>, \<open>GetAllEffectData\<close>, \<open>RenameEffect\<close>, \<open>AddEffect\<close> and
  \<open>DeleteEffect\<close> return \<open>ErrEffectNotFound\<close>; \<open>List\<close>, \<open>Get\<close>, \<open>WriteRaw\<close>, \<open>Display\<close> and
  \<open>DisplayTemp\<close> have no case for 404 and return \<open>ErrUnexpectedResponse\<close>. In each case the
  world is left as that one request left it.
\<close>

theorem not_found_mapping:
  assumes "StatusCode resp = 404"
  shows "(\<forall>w'. R_Put (nano e) [''select'' \<mapsto> JString name] (endpoint e) w = (Inr resp, w') \<longrightarrow>
            Set e name w = (Some ErrEffectNotFound, w')) \<and>
         (\<forall>w'. R_Put (nano e)
              [''write'' \<mapsto> JPayload [''command'' \<mapsto> JString ''request'', ''animName'' \<mapsto> JString name]]
              (endpoint e) w = (Inr resp, w') \<longrightarrow>
            GetEffectData j e name w = ((EffectData_zero, Some ErrEffectNotFound), w')) \<and>
         (\<forall>w'. R_Put (nano e)
              [''write'' \<mapsto> JPayload [''command'' \<mapsto> JString ''requestAll'']]
              (endpoint e) w = (Inr resp, w') \<longrightarrow>
            GetAllEffectData j e w = ((None, Some ErrEffectNotFound), w')) \<and>
         (\<forall>w'. R_Put (nano e)
              [''write'' \<mapsto> JPayload [''command'' \<mapsto> JString ''rename'', ''animName'' \<mapsto> JString name,
                                     ''newName'' \<mapsto> JString newName]]
              (endpoint e) w = (Inr resp, w') \<longrightarrow>
            RenameEffect e name newName w = (Some ErrEffectNotFound, w')) \<and>
         (\<forall>w'. R_Put (nano e)
              [''write'' \<mapsto> JEffectData (data\<lparr>Command := ''add'', Name := name\<rparr>)]
              (endpoint e) w = (Inr resp, w') \<longrightarrow>
            AddEffect e data name w = (Some ErrEffectNotFound, w')) \<and>
         (\<forall>w'. R_Put (nano e)
              [''write'' \<mapsto> JPayload [''command'' \<mapsto> JString ''delete'', ''animName'' \<mapsto> JString name]]
              (endpoint e) w = (Inr resp, w') \<longrightarrow>
            DeleteEffect e name w = (Some ErrEffectNotFound, w')) \<and>
         (\<forall>w'. R_Get (nano e) (endpoint e @ ''/effectsList'') w = (Inr resp, w') \<longrightarrow>
            List j e w = ((None, Some ErrUnexpectedResponse), w')) \<and>
         (\<forall>w'. R_Get (nano e) (endpoint e @ ''/select'') w = (Inr resp, w') \<longrightarrow>
            Get j e w = (([], Some ErrUnexpectedResponse), w')) \<and>
         (\<forall>w'. R_Put (nano e) body (endpoint e) w = (Inr resp, w') \<longrightarrow>
            WriteRaw e body w = (Some ErrUnexpectedResponse, w')) \<and>
         (\<forall>w'. R_Put (nano e)
              [''write'' \<mapsto> JPayload [''command'' \<mapsto> JString ''display'', ''animType'' \<mapsto> JString ''custom'',
                                     ''colorType'' \<mapsto> JString ''RGB'', ''animData'' \<mapsto> JString animData,
                                     ''loop'' \<mapsto> JBool loop]]
              (endpoint e) w = (Inr resp, w') \<longrightarrow>
            Display e animData loop w = (Some ErrUnexpectedResponse, w')) \<and>
         (\<forall>w'. R_Put (nano e)
              [''write'' \<mapsto> JPayload [''command'' \<mapsto> JString ''displayTemp'', ''duration'' \<mapsto> JInt duration,
                                     ''animName'' \<mapsto> JString name]]
              (endpoint e) w = (Inr resp, w') \<longrightarrow>
            DisplayTemp e name duration w = (Some ErrUnexpectedResponse, w'))"
proof -
  have c1: "(\<forall>w'. R_Put (nano e) [''select'' \<mapsto> JString name] (endpoint e) w = (Inr resp, w') \<longrightarrow>
      Set e name w = (Some ErrEffectNotFound, w'))"
    by (simp add: Set_def Let_def status_defs assms)
  have c2: "(\<forall>w'. R_Put (nano e)
        [''write'' \<mapsto> JPayload [''command'' \<mapsto> JString ''request'', ''animName'' \<mapsto> JString name]]
        (endpoint e) w = (Inr resp, w') \<longrightarrow>
      GetEffectData j e name w = ((EffectData_zero, Some ErrEffectNotFound), w'))"
    by (simp add: GetEffectData_def Let_def status_defs assms)
  have c3: "(\<forall>w'. R_Put (nano e)
        [''write'' \<mapsto> JPayload [''command'' \<mapsto> JString ''requestAll'']]
        (endpoint e) w = (Inr resp, w') \<longrightarrow>
      GetAllEffectData j e w = ((None, Some ErrEffectNotFound), w'))"
    by (simp add: GetAllEffectData_def Let_def status_defs assms)
  have c4: "(\<forall>w'. R_Put (nano e)
        [''write'' \<mapsto> JPayload [''command'' \<mapsto> JString ''rename'', ''animName'' \<mapsto> JString name,
                               ''newName'' \<mapsto> JString newName]]
        (endpoint e) w = (Inr resp, w') \<longrightarrow>
      RenameEffect e name newName w = (Some ErrEffectNotFound, w'))"
    by (simp add: RenameEffect_def Let_def status_defs assms)
  have c5: "(\<forall>w'. R_Put (nano e)
        [''write'' \<mapsto> JEffectData (data\<lparr>Command := ''add'', Name := name\<rparr>)]
        (endpoint e) w = (Inr resp, w') \<longrightarrow>
      AddEffect e data name w = (Some ErrEffectNotFound, w'))"
    by (simp add: AddEffect_def Let_def status_defs assms)
  have c6: "(\<forall>w'. R_Put (nano e)
        [''write'' \<mapsto> JPayload [''command'' \<mapsto> JString ''delete'', ''animName'' \<mapsto> JString name]]
        (endpoint e) w = (Inr resp, w') \<longrightarrow>
      DeleteEffect e name w = (Some ErrEffectNotFound, w'))"
    by (simp add: DeleteEffect_def Let_def status_defs assms)
  have c7: "(\<forall>w'. R_Get (nano e) (endpoint e @ ''/effectsList'') w = (Inr resp, w') \<longrightarrow>
      List j e w = ((None, Some ErrUnexpectedResponse), w'))"
    by (simp add: List_def Let_def status_defs assms)
  have c8: "(\<forall>w'. R_Get (nano e) (endpoint e @ ''/select'') w = (Inr resp, w') \<longrightarrow>
      Get j e w = (([], Some ErrUnexpectedResponse), w'))"
    by (simp add: Get_def Let_def status_defs assms)
  have c9: "(\<forall>w'. R_Put (nano e) body (endpoint e) w = (Inr resp, w') \<longrightarrow>
      WriteRaw e body w = (Some ErrUnexpectedResponse, w'))"
    by (simp add: WriteRaw_def Let_def status_defs assms)
  have c10: "(\<forall>w'. R_Put (nano e)
        [''write'' \<mapsto> JPayload [''command'' \<mapsto> JString ''display'', ''animType'' \<mapsto> JString ''custom'',
                               ''colorType'' \<mapsto> JString ''RGB'', ''animData'' \<mapsto> JString animData,
                               ''loop'' \<mapsto> JBool loop]]
        (endpoint e) w = (Inr resp, w') \<longrightarrow>
      Display e animData loop w = (Some ErrUnexpectedResponse, w'))"
    by (simp add: Display_def WriteRaw_def Let_def status_defs assms)
  have c11: "(\<forall>w'. R_Put (nano e)
        [''write'' \<mapsto> JPayload [''command'' \<mapsto> JString ''displayTemp'', ''duration'' \<mapsto> JInt duration,
                               ''animName'' \<mapsto> JString name]]
        (endpoint e) w = (Inr resp, w') \<longrightarrow>
      DisplayTemp e name duration w = (Some ErrUnexpectedResponse, w'))"
    by (simp add: DisplayTemp_def WriteRaw_def Let_def status_defs assms)
  from c1 c2 c3 c4 c5 c6 c7 c8 c9 c10 c11 show ?thesis by blast
qed

theorem not_found_mapping_witness:
  "StatusCode \<lparr>StatusCode = 404, Body = []\<rparr> = 404 \<and>
   fst (Set (newNanoEffects (fake_nano \<lparr>StatusCode = 404, Body = []\<rparr>)) ''Flow'' fresh) =
     Some ErrEffectNotFound \<and>
   fst (GetEffectData failing_json (newNanoEffects (fake_nano \<lparr>StatusCode = 404, Body = []\<rparr>)) ''Flow'' fresh) =
     (EffectData_zero, Some ErrEffectNotFound) \<and>
   fst (GetAllEffectData failing_json (newNanoEffects (fake_nano \<lparr>StatusCode = 404, Body = []\<rparr>)) fresh) =
     (None, Some ErrEffectNotFound) \<and>
   fst (RenameEffect (newNanoEffects (fake_nano \<lparr>StatusCode = 404, Body = []\<rparr>)) ''Flow'' ''Glow'' fresh) =
     Some ErrEffectNotFound \<and>
   fst (AddEffect (newNanoEffects (fake_nano \<lparr>StatusCode = 404, Body = []\<rparr>)) EffectData_zero ''Flow'' fresh) =
     Some ErrEffectNotFound \<and>
   fst (DeleteEffect (newNanoEffects (fake_nano \<lparr>StatusCode = 404, Body = []\<rparr>)) ''Flow'' fresh) =
     Some ErrEffectNotFound \<and>
   fst (List failing_json (newNanoEffects (fake_nano \<lparr>StatusCode = 404, Body = []\<rparr>)) fresh) =
     (None, Some ErrUnexpectedResponse) \<and>
   fst (Get failing_json (newNanoEffects (fake_nano \<lparr>StatusCode = 404, Body = []\<rparr>)) fresh) =
     ([], Some ErrUnexpectedResponse) \<and>
   fst (WriteRaw (newNanoEffects (fake_nano \<lparr>StatusCode = 404, Body = []\<rparr>)) Map.empty fresh) =
     Some ErrUnexpectedResponse \<and>
   fst (Display (newNanoEffects (fake_nano \<lparr>StatusCode = 404, Body = []\<rparr>)) ''0'' True fresh) =
     Some ErrUnexpectedResponse \<and>
   fst (DisplayTemp (newNanoEffects (fake_nano \<lparr>StatusCode = 404, Body = []\<rparr>)) ''Flow'' 10 fresh) =
     Some ErrUnexpectedResponse"
  using not_found_mapping [where resp = "\<lparr>StatusCode = 404, Body = []\<rparr>"
      and e = "newNanoEffects (fake_nano \<lparr>StatusCode = 404, Body = []\<rparr>)"
      and j = failing_json and w = fresh and name = "''Flow''" and newName = "''Glow''"
      and data = EffectData_zero and body = Map.empty and animData = "''0''" and loop = True
      and duration = 10]
  by (simp add: R_Get_def R_Put_def send_def newNanoEffects_def fake_nano_def fake_client_def
      fresh_def)

text \<open>
  C1, as the spec states it for all operations, fails for \<open>List\<close>: against a device that
  answers 404, \<open>List\<close> returns \<open>ErrUnexpectedResponse\<close>, not \<open>ErrEffectNotFound\<close>.
\<close>

theorem List_404_counterexample:
  "snd (fst (List failing_json (newNanoEffects (fake_nano \<lparr>StatusCode = 404, Body = []\<rparr>)) fresh))
     = Some ErrUnexpectedResponse \<and>
   snd (fst (List failing_json (newNanoEffects (fake_nano \<lparr>StatusCode = 404, Body = []\<rparr>)) fresh))
     \<noteq> Some ErrEffectNotFound"
  by (simp add: List_def R_Get_def send_def newNanoEffects_def fake_nano_def fake_client_def
      fresh_def status_defs)

text \<open>
  C4: for every operation, when the response to the request it sends has status 401 the
  operation returns \<open>ErrUnauthorized\<close>, whatever the body of the response holds; the check
  for 401 comes before every other check of the status.
\<close>

theorem unauthorized_everywhere:
  assumes "StatusCode resp = 401"
  shows "(\<forall>w'. R_Get (nano e) (endpoint e @ ''/effectsList'') w = (Inr resp, w') \<longrightarrow>
            List j e w = ((None, Some ErrUnauthorized), w')) \<and>
         (\<forall>w'. R_Put (nano e) [''select'' \<mapsto> JString name] (endpoint e) w = (Inr resp, w') \<longrightarrow>
            Set e name w = (Some ErrUnauthorized, w')) \<and>
         (\<forall>w'. R_Get (nano e) (endpoint e @ ''/select'') w = (Inr resp, w') \<longrightarrow>
            Get j e w = (([], Some ErrUnauthorized), w')) \<and>
         (\<forall>w'. R_Put (nano e)
              [''write'' \<mapsto> JPayload [''command'' \<mapsto> JString ''request'', ''animName'' \<mapsto> JString name]]
              (endpoint e) w = (Inr resp, w') \<longrightarrow>
            GetEffectData j e name w = ((EffectData_zero, Some ErrUnauthorized), w')) \<and>
         (\<forall>w'. R_Put (nano e)
              [''write'' \<mapsto> JPayload [''command'' \<mapsto> JString ''requestAll'']]
              (endpoint e) w = (Inr resp, w') \<longrightarrow>
            GetAllEffectData j e w = ((None, Some ErrUnauthorized), w')) \<and>
         (\<forall>w'. R_Put (nano e)
              [''write'' \<mapsto> JPayload [''command'' \<mapsto> JString ''rename'', ''animName'' \<mapsto> JString name,
                                     ''newName'' \<mapsto> JString newName]]
              (endpoint e) w = (Inr resp, w') \<longrightarrow>
            RenameEffect e name newName w = (Some ErrUnauthorized, w')) \<and>
         (\<forall>w'. R_Put (nano e)
              [''write'' \<mapsto> JEffectData (data\<lparr>Command := ''add'', Name := name\<rparr>)]
              (endpoint e) w = (Inr resp, w') \<longrightarrow>
            AddEffect e data name w = (Some ErrUnauthorized, w')) \<and>
         (\<forall>w'. R_Put (nano e)
              [''write'' \<mapsto> JPayload [''command'' \<mapsto> JString ''delete'', ''animName'' \<mapsto> JString name]]
              (endpoint e) w = (Inr resp, w') \<longrightarrow>
            DeleteEffect e name w = (Some ErrUnauthorized, w')) \<and>
         (\<forall>w'. R_Put (nano e) body (endpoint e) w = (Inr resp, w') \<longrightarrow>
            WriteRaw e body w = (Some ErrUnauthorized, w')) \<and>
         (\<forall>w'. R_Put (nano e)
              [''write'' \<mapsto> JPayload [''command'' \<mapsto> JString ''display'', ''animType'' \<mapsto> JString ''custom'',
                                     ''colorType'' \<mapsto> JString ''RGB'', ''animData'' \<mapsto> JString animData,
                                     ''loop'' \<mapsto> JBool loop]]
              (endpoint e) w = (Inr resp, w') \<longrightarrow>
            Display e animData loop w = (Some ErrUnauthorized, w')) \<and>
         (\<forall>w'. R_Put (nano e)
              [''write'' \<mapsto> JPayload [''command'' \<mapsto> JString ''displayTemp'', ''duration'' \<mapsto> JInt duration,
                                     ''animName'' \<mapsto> JString name]]
              (endpoint e) w = (Inr resp, w') \<longrightarrow>
            DisplayTemp e name duration w = (Some ErrUnauthorized, w'))"
proof -
  have c1: "(\<forall>w'. R_Get (nano e) (endpoint e @ ''/effectsList'') w = (Inr resp, w') \<longrightarrow>
      List j e w = ((None, Some ErrUnauthorized), w'))"
    by (simp add: List_def Let_def status_defs assms)
  have c2: "(\<forall>w'. R_Put (nano e) [''select'' \<mapsto> JString name] (endpoint e) w = (Inr resp, w') \<longrightarrow>
      Set e name w = (Some ErrUnauthorized, w'))"
    by (simp add: Set_def Let_def status_defs assms)
  have c3: "(\<forall>w'. R_Get (nano e) (endpoint e @ ''/select'') w = (Inr resp, w') \<longrightarrow>
      Get j e w = (([], Some ErrUnauthorized), w'))"
    by (simp add: Get_def Let_def status_defs assms)
  have c4: "(\<forall>w'. R_Put (nano e)
        [''write'' \<mapsto> JPayload [''command'' \<mapsto> JString ''request'', ''animName'' \<mapsto> JString name]]
        (endpoint e) w = (Inr resp, w') \<longrightarrow>
      GetEffectData j e name w = ((EffectData_zero, Some ErrUnauthorized), w'))"
    by (simp add: GetEffectData_def Let_def status_defs assms)
  have c5: "(\<forall>w'. R_Put (nano e)
        [''write'' \<mapsto> JPayload [''command'' \<mapsto> JString ''requestAll'']]
        (endpoint e) w = (Inr resp, w') \<longrightarrow>
      GetAllEffectData j e w = ((None, Some ErrUnauthorized), w'))"
    by (simp add: GetAllEffectData_def Let_def status_defs assms)
  have c6: "(\<forall>w'. R_Put (nano e)
        [''write'' \<mapsto> JPayload [''command'' \<mapsto> JString ''rename'', ''animName'' \<mapsto> JString name,
                               ''newName'' \<mapsto> JString newName]]
        (endpoint e) w = (Inr resp, w') \<longrightarrow>
      RenameEffect e name newName w = (Some ErrUnauthorized, w'))"
    by (simp add: RenameEffect_def Let_def status_defs assms)
  have c7: "(\<forall>w'. R_Put (nano e)
        [''write'' \<mapsto> JEffectData (data\<lparr>Command := ''add'', Name := name\<rparr>)]
        (endpoint e) w = (Inr resp, w') \<longrightarrow>
      AddEffect e data name w = (Some ErrUnauthorized, w'))"
    by (simp add: AddEffect_def Let_def status_defs assms)
  have c8: "(\<forall>w'. R_Put (nano e)
        [''write'' \<mapsto> JPayload [''command'' \<mapsto> JString ''delete'', ''animName'' \<mapsto> JString name]]
        (endpoint e) w = (Inr resp, w') \<longrightarrow>
      DeleteEffect e name w = (Some ErrUnauthorized, w'))"
    by (simp add: DeleteEffect_def Let_def status_defs assms)
  have c9: "(\<forall>w'. R_Put (nano e) body (endpoint e) w = (Inr resp, w') \<longrightarrow>
      WriteRaw e body w = (Some ErrUnauthorized, w'))"
    by (simp add: WriteRaw_def Let_def status_defs assms)
  have c10: "(\<forall>w'. R_Put (nano e)
        [''write'' \<mapsto> JPayload [''command'' \<mapsto> JString ''display'', ''animType'' \<mapsto> JString ''custom'',
                               ''colorType'' \<mapsto> JString ''RGB'', ''animData'' \<mapsto> JString animData,
                               ''loop'' \<mapsto> JBool loop]]
        (endpoint e) w = (Inr resp, w') \<longrightarrow>
      Display e animData loop w = (Some ErrUnauthorized, w'))"
    by (simp add: Display_def WriteRaw_def Let_def status_defs assms)
  have c11: "(\<forall>w'. R_Put (nano e)
        [''write'' \<mapsto> JPayload [''command'' \<mapsto> JString ''displayTemp'', ''duration'' \<mapsto> JInt duration,
                               ''animName'' \<mapsto> JString name]]
        (endpoint e) w = (Inr resp, w') \<longrightarrow>
      DisplayTemp e name duration w = (Some ErrUnauthorized, w'))"
    by (simp add: DisplayTemp_def WriteRaw_def Let_def status_defs assms)
  from c1 c2 c3 c4 c5 c6 c7 c8 c9 c10 c11 show ?thesis by blast
qed

theorem unauthorized_everywhere_witness:
  "StatusCode \<lparr>StatusCode = 401, Body = ''[]''\<rparr> = 401 \<and>
   fst (List failing_json (newNanoEffects (fake_nano \<lparr>StatusCode = 401, Body = ''[]''\<rparr>)) fresh) =
     (None, Some ErrUnauthorized) \<and>
   fst (Set (newNanoEffects (fake_nano \<lparr>StatusCode = 401, Body = ''[]''\<rparr>)) ''Flow'' fresh) =
     Some ErrUnauthorized \<and>
   fst (Get failing_json (newNanoEffects (fake_nano \<lparr>StatusCode = 401, Body = ''[]''\<rparr>)) fresh) =
     ([], Some ErrUnauthorized) \<and>
   fst (GetEffectData failing_json (newNanoEffects (fake_nano \<lparr>StatusCode = 401, Body = ''[]''\<rparr>)) ''Flow'' fresh) =
     (EffectData_zero, Some ErrUnauthorized) \<and>
   fst (GetAllEffectData failing_json (newNanoEffects (fake_nano \<lparr>StatusCode = 401, Body = ''[]''\<rparr>)) fresh) =
     (None, Some ErrUnauthorized) \<and>
   fst (RenameEffect (newNanoEffects (fake_nano \<lparr>StatusCode = 401, Body = ''[]''\<rparr>)) ''Flow'' ''Glow'' fresh) =
     Some ErrUnauthorized \<and>
   fst (AddEffect (newNanoEffects (fake_nano \<lparr>StatusCode = 401, Body = ''[]''\<rparr>)) EffectData_zero ''Flow'' fresh) =
     Some ErrUnauthorized \<and>
   fst (DeleteEffect (newNanoEffects (fake_nano \<lparr>StatusCode = 401, Body = ''[]''\<rparr>)) ''Flow'' fresh) =
     Some ErrUnauthorized \<and>
   fst (WriteRaw (newNanoEffects (fake_nano \<lparr>StatusCode = 401, Body = ''[]''\<rparr>)) Map.empty fresh) =
     Some ErrUnauthorized \<and>
   fst (Display (newNanoEffects (fake_nano \<lparr>StatusCode = 401, Body = ''[]''\<rparr>)) ''0'' True fresh) =
     Some ErrUnauthorized \<and>
   fst (DisplayTemp (newNanoEffects (fake_nano \<lparr>StatusCode = 401, Body = ''[]''\<rparr>)) ''Flow'' 10 fresh) =
     Some ErrUnauthorized"
  using unauthorized_everywhere [where resp = "\<lparr>StatusCode = 401, Body = ''[]''\<rparr>"
      and e = "newNanoEffects (fake_nano \<lparr>StatusCode = 401, Body = ''[]''\<rparr>)"
      and j = failing_json and w = fresh and name = "''Flow''" and newName = "''Glow''"
      and data = EffectData_zero and body = Map.empty and animData = "''0''" and loop = True
      and duration = 10]
  by (simp add: R_Get_def R_Put_def send_def newNanoEffects_def fake_nano_def fake_client_def
      fresh_def)

text \<open>
  C6: for \<open>List\<close>, \<open>Get\<close>, \<open>GetEffectData\<close> and \<open>GetAllEffectData\<close>, when the response to
  the request the operation sends has a status other than 200, the operation returns the
  zero value with one of the errors derived from the status (\<open>ErrUnauthorized\<close>,
  \<open>ErrEffectNotFound\<close>, \<open>ErrUnexpectedResponse\<close>), never \<open>ErrParsingJSON\<close>, and the body is
  not decoded: the outcome is the same with any other decoder \<open>j'\<close>, and nothing is printed.
\<close>

theorem status_before_decoding:
  assumes "StatusCode resp \<noteq> 200"
  shows "(\<forall>w'. R_Get (nano e) (endpoint e @ ''/effectsList'') w = (Inr resp, w') \<longrightarrow>
            (\<exists>err. List j e w = ((None, Some err), w') \<and>
               err \<in> {ErrUnauthorized, ErrEffectNotFound, ErrUnexpectedResponse}) \<and>
            List j' e w = List j e w \<and> stdout w' = stdout w) \<and>
         (\<forall>w'. R_Get (nano e) (endpoint e @ ''/select'') w = (Inr resp, w') \<longrightarrow>
            (\<exists>err. Get j e w = (([], Some err), w') \<and>
               err \<in> {ErrUnauthorized, ErrEffectNotFound, ErrUnexpectedResponse}) \<and>
            Get j' e w = Get j e w \<and> stdout w' = stdout w) \<and>
         (\<forall>w'. R_Put (nano e)
              [''write'' \<mapsto> JPayload [''command'' \<mapsto> JString ''request'', ''animName'' \<mapsto> JString name]]
              (endpoint e) w = (Inr resp, w') \<longrightarrow>
            (\<exists>err. GetEffectData j e name w = ((EffectData_zero, Some err), w') \<and>
               err \<in> {ErrUnauthorized, ErrEffectNotFound, ErrUnexpectedResponse}) \<and>
            GetEffectData j' e name w = GetEffectData j e name w \<and> stdout w' = stdout w) \<and>
         (\<forall>w'. R_Put (nano e)
              [''write'' \<mapsto> JPayload [''command'' \<mapsto> JString ''requestAll'']]
              (endpoint e) w = (Inr resp, w') \<longrightarrow>
            (\<exists>err. GetAllEffectData j e w = ((None, Some err), w') \<and>
               err \<in> {ErrUnauthorized, ErrEffectNotFound, ErrUnexpectedResponse}) \<and>
            GetAllEffectData j' e w = GetAllEffectData j e w \<and> stdout w' = stdout w)"
proof -
  have c1: "(\<forall>w'. R_Get (nano e) (endpoint e @ ''/effectsList'') w = (Inr resp, w') \<longrightarrow>
      (\<exists>err. List j e w = ((None, Some err), w') \<and>
         err \<in> {ErrUnauthorized, ErrEffectNotFound, ErrUnexpectedResponse}) \<and>
      List j' e w = List j e w \<and> stdout w' = stdout w)"
    by (auto simp: List_def Let_def status_defs assms R_Get_def dest: send_stdout)
  have c2: "(\<forall>w'. R_Get (nano e) (endpoint e @ ''/select'') w = (Inr resp, w') \<longrightarrow>
      (\<exists>err. Get j e w = (([], Some err), w') \<and>
         err \<in> {ErrUnauthorized, ErrEffectNotFound, ErrUnexpectedResponse}) \<and>
      Get j' e w = Get j e w \<and> stdout w' = stdout w)"
    by (auto simp: Get_def Let_def status_defs assms R_Get_def dest: send_stdout)
  have c3: "(\<forall>w'. R_Put (nano e)
        [''write'' \<mapsto> JPayload [''command'' \<mapsto> JString ''request'', ''animName'' \<mapsto> JString name]]
        (endpoint e) w = (Inr resp, w') \<longrightarrow>
      (\<exists>err. GetEffectData j e name w = ((EffectData_zero, Some err), w') \<and>
         err \<in> {ErrUnauthorized, ErrEffectNotFound, ErrUnexpectedResponse}) \<and>
      GetEffectData j' e name w = GetEffectData j e name w \<and> stdout w' = stdout w)"
    by (auto simp: GetEffectData_def Let_def status_defs assms R_Put_def dest: send_stdout)
  have c4: "(\<forall>w'. R_Put (nano e)
        [''write'' \<mapsto> JPayload [''command'' \<mapsto> JString ''requestAll'']]
        (endpoint e) w = (Inr resp, w') \<longrightarrow>
      (\<exists>err. GetAllEffectData j e w = ((None, Some err), w') \<and>
         err \<in> {ErrUnauthorized, ErrEffectNotFound, ErrUnexpectedResponse}) \<and>
      GetAllEffectData j' e w = GetAllEffectData j e w \<and> stdout w' = stdout w)"
    by (auto simp: GetAllEffectData_def Let_def status_defs assms R_Put_def dest: send_stdout)
  from c1 c2 c3 c4 show ?thesis by blast
qed

theorem status_before_decoding_witness:
  "StatusCode \<lparr>StatusCode = 500, Body = ''{''\<rparr> \<noteq> 200 \<and>
   (\<exists>err. fst (List failing_json (newNanoEffects (fake_nano \<lparr>StatusCode = 500, Body = ''{''\<rparr>)) fresh) =
       (None, Some err) \<and>
     err \<in> {ErrUnauthorized, ErrEffectNotFound, ErrUnexpectedResponse}) \<and>
   (\<exists>err. fst (Get failing_json (newNanoEffects (fake_nano \<lparr>StatusCode = 500, Body = ''{''\<rparr>)) fresh) =
       ([], Some err) \<and>
     err \<in> {ErrUnauthorized, ErrEffectNotFound, ErrUnexpectedResponse}) \<and>
   (\<exists>err. fst (GetEffectData failing_json (newNanoEffects (fake_nano \<lparr>StatusCode = 500, Body = ''{''\<rparr>)) ''Flow'' fresh) =
       (EffectData_zero, Some err) \<and>
     err \<in> {ErrUnauthorized, ErrEffectNotFound, ErrUnexpectedResponse}) \<and>
   (\<exists>err. fst (GetAllEffectData failing_json (newNanoEffects (fake_nano \<lparr>StatusCode = 500, Body = ''{''\<rparr>)) fresh) =
       (None, Some err) \<and>
     err \<in> {ErrUnauthorized, ErrEffectNotFound, ErrUnexpectedResponse})"
  using status_before_decoding [where resp = "\<lparr>StatusCode = 500, Body = ''{''\<rparr>"
      and e = "newNanoEffects (fake_nano \<lparr>StatusCode = 500, Body = ''{''\<rparr>)"
      and j = failing_json and j' = failing_json and w = fresh and name = "''Flow''"]
  by (clarsimp simp: R_Get_def R_Put_def send_def newNanoEffects_def fake_nano_def fake_client_def
      fresh_def)

subsection \<open>Decoding failures\<close>

text \<open>
  C7: when the response to the request the operation sends has status 200 and decoding its
  body fails, each of \<open>List\<close>, \<open>Get\<close>, \<open>GetEffectData\<close> and \<open>GetAllEffectData\<close> returns the
  error \<open>ErrParsingJSON\<close> and no other; the call is never a success. (\<open>List\<close> and \<open>Get\<close>
  return the zero value with the error; \<open>GetEffectData\<close> and \<open>GetAllEffectData\<close> return,
  with the error, what the decoder left in its target, and print the decoder's message.)
\<close>

theorem decode_failure:
  assumes "StatusCode resp = 200"
  shows "(\<forall>w' v m. R_Get (nano e) (endpoint e @ ''/effectsList'') w = (Inr resp, w') \<and>
              Unmarshal_strings j (Body resp) None = (v, Some m) \<longrightarrow>
            List j e w = ((None, Some ErrParsingJSON), w')) \<and>
         (\<forall>w' v m. R_Get (nano e) (endpoint e @ ''/select'') w = (Inr resp, w') \<and>
              Unmarshal_string j (Body resp) [] = (v, Some m) \<longrightarrow>
            Get j e w = (([], Some ErrParsingJSON), w')) \<and>
         (\<forall>w' v m. R_Put (nano e)
              [''write'' \<mapsto> JPayload [''command'' \<mapsto> JString ''request'', ''animName'' \<mapsto> JString name]]
              (endpoint e) w = (Inr resp, w') \<and>
              Unmarshal_EffectData j (Body resp) EffectData_zero = (v, Some m) \<longrightarrow>
            GetEffectData j e name w = ((v, Some ErrParsingJSON), Println m w')) \<and>
         (\<forall>w' v m. R_Put (nano e)
              [''write'' \<mapsto> JPayload [''command'' \<mapsto> JString ''requestAll'']]
              (endpoint e) w = (Inr resp, w') \<and>
              Unmarshal_animations j (Body resp) None = (v, Some m) \<longrightarrow>
            GetAllEffectData j e w = ((v, Some ErrParsingJSON), Println m w'))"
proof -
  have c1: "(\<forall>w' v m. R_Get (nano e) (endpoint e @ ''/effectsList'') w = (Inr resp, w') \<and>
        Unmarshal_strings j (Body resp) None = (v, Some m) \<longrightarrow>
      List j e w = ((None, Some ErrParsingJSON), w'))"
    by (simp add: List_def Let_def status_defs assms)
  have c2: "(\<forall>w' v m. R_Get (nano e) (endpoint e @ ''/select'') w = (Inr resp, w') \<and>
        Unmarshal_string j (Body resp) [] = (v, Some m) \<longrightarrow>
      Get j e w = (([], Some ErrParsingJSON), w'))"
    by (simp add: Get_def Let_def status_defs assms)
  have c3: "(\<forall>w' v m. R_Put (nano e)
        [''write'' \<mapsto> JPayload [''command'' \<mapsto> JString ''request'', ''animName'' \<mapsto> JString name]]
        (endpoint e) w = (Inr resp, w') \<and>
        Unmarshal_EffectData j (Body resp) EffectData_zero = (v, Some m) \<longrightarrow>
      GetEffectData j e name w = ((v, Some ErrParsingJSON), Println m w'))"
    by (simp add: GetEffectData_def Let_def status_defs assms)
  have c4: "(\<forall>w' v m. R_Put (nano e)
        [''write'' \<mapsto> JPayload [''command'' \<mapsto> JString ''requestAll'']]
        (endpoint e) w = (Inr resp, w') \<and>
        Unmarshal_animations j (Body resp) None = (v, Some m) \<longrightarrow>
      GetAllEffectData j e w = ((v, Some ErrParsingJSON), Println m w'))"
    by (simp add: GetAllEffectData_def Let_def status_defs assms)
  from c1 c2 c3 c4 show ?thesis by blast
qed

theorem decode_failure_witness:
  "StatusCode \<lparr>StatusCode = 200, Body = ''[''\<rparr> = 200 \<and>
   fst (List failing_json (newNanoEffects (fake_nano \<lparr>StatusCode = 200, Body = ''[''\<rparr>)) fresh) =
     (None, Some ErrParsingJSON) \<and>
   stdout (snd (List failing_json (newNanoEffects (fake_nano \<lparr>StatusCode = 200, Body = ''[''\<rparr>)) fresh)) =
     [] \<and>
   fst (Get failing_json (newNanoEffects (fake_nano \<lparr>StatusCode = 200, Body = ''[''\<rparr>)) fresh) =
     ([], Some ErrParsingJSON) \<and>
   stdout (snd (Get failing_json (newNanoEffects (fake_nano \<lparr>StatusCode = 200, Body = ''[''\<rparr>)) fresh)) =
     [] \<and>
   fst (GetEffectData failing_json (newNanoEffects (fake_nano \<lparr>StatusCode = 200, Body = ''[''\<rparr>)) ''Flow'' fresh) =
     (EffectData_zero, Some ErrParsingJSON) \<and>
   stdout (snd (GetEffectData failing_json (newNanoEffects (fake_nano \<lparr>StatusCode = 200, Body = ''[''\<rparr>)) ''Flow'' fresh)) =
     [''unexpected end of JSON input''] \<and>
   fst (GetAllEffectData failing_json (newNanoEffects (fake_nano \<lparr>StatusCode = 200, Body = ''[''\<rparr>)) fresh) =
     (None, Some ErrParsingJSON) \<and>
   stdout (snd (GetAllEffectData failing_json (newNanoEffects (fake_nano \<lparr>StatusCode = 200, Body = ''[''\<rparr>)) fresh)) =
     [''unexpected end of JSON input'']"
  using decode_failure [where resp = "\<lparr>StatusCode = 200, Body = ''[''\<rparr>"
      and e = "newNanoEffects (fake_nano \<lparr>StatusCode = 200, Body = ''[''\<rparr>)"
      and j = failing_json and w = fresh and name = "''Flow''"]
  by (simp add: R_Get_def R_Put_def send_def newNanoEffects_def fake_nano_def fake_client_def
      fresh_def failing_json_def failing_strings_def failing_string_def failing_EffectData_def
      failing_animations_def Println_def)

text \<open>
  C10: when \<open>List\<close> returns an error its slice is \<open>nil\<close>, and when \<open>Get\<close> returns an
  error its string is empty.
\<close>

theorem failed_call_zero_result:
  "(List j e w = ((effects, Some err), w') \<longrightarrow> effects = None) \<and>
   (Get j e w = ((effect, Some err), w') \<longrightarrow> effect = [])"
  by (auto simp: List_def Get_def split: prod.splits sum.splits if_splits option.splits)

theorem failed_call_zero_result_witness:
  "List failing_json (newNanoEffects (fake_nano \<lparr>StatusCode = 200, Body = ''[''\<rparr>)) fresh
     = ((None, Some ErrParsingJSON),
        \<lparr>net = [\<lparr>Method = GET, URL = ''http://10.0.0.2:16021/api/v1/secret/effects/effectsList'',
                  Header = [], ReqBody = None\<rparr>], stdout = []\<rparr>) \<and>
   Get failing_json (newNanoEffects (fake_nano \<lparr>StatusCode = 401, Body = []\<rparr>)) fresh
     = (([], Some ErrUnauthorized),
        \<lparr>net = [\<lparr>Method = GET, URL = ''http://10.0.0.2:16021/api/v1/secret/effects/select'',
                  Header = [], ReqBody = None\<rparr>], stdout = []\<rparr>)"
  using failed_call_zero_result [of failing_json
      "newNanoEffects (fake_nano \<lparr>StatusCode = 200, Body = ''[''\<rparr>)" fresh]
  by (simp add: List_def Get_def R_Get_def send_def newNanoEffects_def fake_nano_def
      fake_client_def fresh_def failing_json_def failing_strings_def status_defs)

subsection \<open>What is sent\<close>

text \<open>
  C3: for every effect data and target name, \<open>AddEffect\<close> sends the data with its command
  set to \<open>add\<close> and its name set to the target name: the world after the call is the world
  after one PUT of that payload, and the values the caller had put in those two fields
  make no difference.
\<close>

theorem AddEffect_forces_command_and_name:
  "snd (AddEffect e data animName w) =
     snd (R_Put (nano e) [''write'' \<mapsto> JEffectData (data\<lparr>Command := ''add'', Name := animName\<rparr>)]
            (endpoint e) w) \<and>
   AddEffect e (data\<lparr>Command := c, Name := n\<rparr>) animName w = AddEffect e data animName w"
  by (simp add: AddEffect_def split: prod.splits sum.splits)

text \<open>
  On the simulated device: the effect data arrives with command \<open>delete\<close> and name
  \<open>Old\<close>, and the one request the device receives carries \<open>add\<close> and \<open>New\<close>.
\<close>

lemma AddEffect_example:
  "AddEffect (newNanoEffects (fake_nano \<lparr>StatusCode = 204, Body = []\<rparr>))
     (EffectData_zero\<lparr>Command := ''delete'', Name := ''Old''\<rparr>) ''New'' fresh
   = (None,
      \<lparr>net = [\<lparr>Method = PUT, URL = ''http://10.0.0.2:16021/api/v1/secret/effects'',
                Header = [(''Content-Type'', ''application/json'')],
                ReqBody = Some [''write'' \<mapsto>
                  JEffectData (EffectData_zero\<lparr>Command := ''add'', Name := ''New''\<rparr>)]\<rparr>],
       stdout = []\<rparr>)"
  by (simp add: AddEffect_def R_Put_def send_def newNanoEffects_def fake_nano_def
      fake_client_def fresh_def status_defs)

text \<open>
  C9: \<open>Display\<close> is \<open>WriteRaw\<close> of the payload with command \<open>display\<close>, animation type
  \<open>custom\<close>, colour type \<open>RGB\<close>, the given animation data and loop flag, and
  \<open>DisplayTemp\<close> is \<open>WriteRaw\<close> of the payload with command \<open>displayTemp\<close>, the given
  duration and name; outcome, error and effect on the world are those of \<open>WriteRaw\<close>.
\<close>

theorem Display_as_WriteRaw:
  "Display e animData loop w =
     WriteRaw e [''write'' \<mapsto> JPayload [''command'' \<mapsto> JString ''display'',
                                             ''animType'' \<mapsto> JString ''custom'',
                                             ''colorType'' \<mapsto> JString ''RGB'',
                                             ''animData'' \<mapsto> JString animData,
                                             ''loop'' \<mapsto> JBool loop]] w \<and>
   DisplayTemp e animName duration w =
     WriteRaw e [''write'' \<mapsto> JPayload [''command'' \<mapsto> JString ''displayTemp'',
                                             ''duration'' \<mapsto> JInt duration,
                                             ''animName'' \<mapsto> JString animName]] w"
  by (simp add: Display_def DisplayTemp_def)

end
